theory Spec2Isabelle
  imports Complex_Main "HOL-Library.Sublist"
begin

section \<open>Data model\<close>

text \<open>
  The documents of the two collections the subscription core works on, as the mongoose
  schemas of \<^verbatim>\<open>models/Subscription\<close> and \<^verbatim>\<open>models/Service\<close> declare them.
  JavaScript numbers that hold money are modelled as exact rationals, counters and
  quantities as integers, a field that may be \<^verbatim>\<open>null\<close> or \<^verbatim>\<open>undefined\<close> as an option.
  Fields that no modelled operation reads or writes (media, seo, ratings, notifications,
  technician, tags) are left out.
\<close>

type_synonym objectId = string

datatype billingCycle = OneTime | Monthly | Quarterly | Yearly

datatype subscriptionStatus = Pending | Active | Paused | Cancelled | Expired | Failed

datatype paymentStatus = PaymentPending | Paid | PaymentFailed | Refunded | Partial

datatype recordStatus = RecordPending | Success | RecordFailed | RecordRefunded

datatype category = Cable | Silver | Snacks | Internet | Gaming | Design | Development

text \<open>A \<^verbatim>\<open>Date\<close>, read through its calendar fields: \<^verbatim>\<open>getFullYear()\<close>,
  \<^verbatim>\<open>getMonth()\<close> (0 to 11), \<^verbatim>\<open>getDate()\<close> (1 to 31) and the milliseconds since
  midnight. The time zone is fixed (no daylight-saving shifts).\<close>

record date =
  fullYear :: int
  monthIndex :: nat
  dayOfMonth :: nat
  timeInDay :: nat

record price =
  amount :: rat
  currency :: string
  price_billingCycle :: billingCycle

record availability =
  isActive :: bool
  maxSubscriptions :: "int option"
  currentSubscriptions :: int

record constraints =
  maxQuantityPerUser :: int
  minSubscriptionPeriod :: int
  maxOnlineOrderValue :: "rat option"
  requiresQuote :: bool

record service =
  service_id :: objectId
  name :: string
  service_category :: category
  service_price :: price
  service_availability :: availability
  service_constraints :: constraints

record lineItem =
  serviceId :: objectId
  quantity :: int
  customizations :: "(string \<times> string) list"
  priceAtSubscription :: price

record pricing =
  subtotal :: rat
  taxes :: rat
  discounts :: rat
  total :: rat
  pricing_currency :: string

record dates =
  startDate :: "date option"
  endDate :: "date option"
  nextBillingDate :: "date option"
  lastPaymentDate :: "date option"
  cancelledDate :: "date option"
  pausedDate :: "date option"

record address =
  street :: string
  city :: string
  state :: string
  pincode :: string

text \<open>A payment as the caller hands it to \<^verbatim>\<open>addPayment\<close> (fields may be missing), and as
  the \<^verbatim>\<open>paymentHistory\<close> sub-schema stores it (defaults filled in).\<close>

record paymentData =
  pd_amount :: rat
  pd_currency :: "string option"
  pd_paymentMethod :: string
  pd_transactionId :: "string option"
  pd_status :: "recordStatus option"
  pd_paidAt :: "date option"
  pd_notes :: "string option"

record payment =
  payment_amount :: rat
  payment_currency :: string
  paymentMethod :: string
  transactionId :: "string option"
  payment_status :: recordStatus
  paidAt :: date
  payment_notes :: "string option"

record metadata =
  source :: string
  metadata_notes :: "string option"

record subscription =
  subscription_id :: objectId
  userId :: objectId
  services :: "lineItem list"
  subscription_pricing :: pricing
  billingCycle :: billingCycle
  status :: subscriptionStatus
  subscription_paymentStatus :: paymentStatus
  subscription_dates :: dates
  installation_isRequired :: bool
  subscription_address :: address
  paymentHistory :: "payment list"
  subscription_metadata :: metadata

text \<open>The document store: the two collections, in insertion order.\<close>

record db =
  serviceDocs :: "service list"
  subscriptionDocs :: "subscription list"

text \<open>\<^verbatim>\<open>req.user\<close> as \<^verbatim>\<open>authenticate\<close> leaves it.\<close>

record user =
  user_id :: objectId
  role :: string

datatype error =
    AuthenticationRequired
  | InvalidUserRole
  | SubscriptionLimit nat
  | ValidationFailed
  | ServicesNotAvailable
  | MaximumQuantity int string
  | CurrentlyNotAvailable string
  | RequiresQuote rat
  | SubscriptionNotFound
  | AccessDenied
  | AlreadyCancelledOrExpired
  | OnlyActiveCanBePaused
  | OnlyPausedCanBeResumed
  | AdminRequired
  | ServerError

section \<open>Dates: \<^verbatim>\<open>setMonth\<close> and \<^verbatim>\<open>setFullYear\<close>\<close>

definition leapYear :: "int \<Rightarrow> bool" where
  "leapYear y = (y mod 4 = 0 \<and> (y mod 100 \<noteq> 0 \<or> y mod 400 = 0))"

definition daysInMonth :: "int \<Rightarrow> nat \<Rightarrow> nat" where
  "daysInMonth y m =
     (if m = 1 then (if leapYear y then 29 else 28)
      else if m = 3 \<or> m = 5 \<or> m = 8 \<or> m = 10 then 30
      else 31)"

definition validDate :: "date \<Rightarrow> bool" where
  "validDate d = (monthIndex d < 12 \<and> 1 \<le> dayOfMonth d \<and>
                  dayOfMonth d \<le> daysInMonth (fullYear d) (monthIndex d))"

text \<open>The date that the fields (year, month, day) denote, as the platform's \<^verbatim>\<open>MakeDay\<close>
  normalises them: a month outside 0 to 11 carries into the year, and a day past the end
  of the month carries into the following month. The day is that of a valid date (at most
  31), so one carry is enough.\<close>

definition makeDate :: "int \<Rightarrow> int \<Rightarrow> nat \<Rightarrow> nat \<Rightarrow> date" where
  "makeDate y m d t =
     (let ym = y + m div 12;
          mn = nat (m mod 12);
          len = daysInMonth ym mn
      in if d \<le> len then \<lparr>fullYear = ym, monthIndex = mn, dayOfMonth = d, timeInDay = t\<rparr>
         else if mn = 11 then \<lparr>fullYear = ym + 1, monthIndex = 0, dayOfMonth = d - len, timeInDay = t\<rparr>
         else \<lparr>fullYear = ym, monthIndex = mn + 1, dayOfMonth = d - len, timeInDay = t\<rparr>)"

definition getMonth :: "date \<Rightarrow> int" where
  "getMonth d = int (monthIndex d)"

definition getFullYear :: "date \<Rightarrow> int" where
  "getFullYear d = fullYear d"

definition setMonth :: "date \<Rightarrow> int \<Rightarrow> date" where
  "setMonth d m = makeDate (fullYear d) m (dayOfMonth d) (timeInDay d)"

definition setFullYear :: "date \<Rightarrow> int \<Rightarrow> date" where
  "setFullYear d y = makeDate y (int (monthIndex d)) (dayOfMonth d) (timeInDay d)"

section \<open>The Subscription model\<close>

text \<open>\<^verbatim>\<open>this.isModified(path)\<close>, over the list of paths written since the document was
  loaded: the path itself, one of its ancestors or one of its descendants was written.\<close>

definition isModified :: "string list \<Rightarrow> string \<Rightarrow> bool" where
  "isModified modified path =
     (\<exists>m \<in> set modified. m = path \<or> prefix (m @ ''.'') path \<or> prefix (path @ ''.'') m)"

text \<open>The \<^verbatim>\<open>pre('save')\<close> hook.\<close>

definition pre_save :: "date \<Rightarrow> bool \<Rightarrow> string list \<Rightarrow> subscription \<Rightarrow> subscription" where
  "pre_save now isNew modified this =
     (if isNew \<or> isModified modified ''dates.startDate'' \<or> isModified modified ''billingCycle''
      then
        let start = (case startDate (subscription_dates this) of Some d \<Rightarrow> d | None \<Rightarrow> now);
            nextBilling =
              (case billingCycle this of
                 Monthly \<Rightarrow> Some (setMonth start (getMonth start + 1))
               | Quarterly \<Rightarrow> Some (setMonth start (getMonth start + 3))
               | Yearly \<Rightarrow> Some (setFullYear start (getFullYear start + 1))
               | OneTime \<Rightarrow> None)
        in this\<lparr>subscription_dates := (subscription_dates this)\<lparr>nextBillingDate := nextBilling\<rparr>\<rparr>
      else this)"

text \<open>Writing a document: a new one is appended to the collection, an existing one
  replaces the stored document of the same id.\<close>

definition storeSubscription :: "bool \<Rightarrow> subscription \<Rightarrow> db \<Rightarrow> db" where
  "storeSubscription isNew this d =
     (if isNew then d\<lparr>subscriptionDocs := subscriptionDocs d @ [this]\<rparr>
      else d\<lparr>subscriptionDocs :=
                map (\<lambda>s. if subscription_id s = subscription_id this then this else s)
                    (subscriptionDocs d)\<rparr>)"

definition save :: "date \<Rightarrow> bool \<Rightarrow> string list \<Rightarrow> subscription \<Rightarrow> db \<Rightarrow> subscription \<times> db" where
  "save now isNew modified this d =
     (let this' = pre_save now isNew modified this in (this', storeSubscription isNew this' d))"

text \<open>The new value of \<^verbatim>\<open>metadata.notes\<close>: the old notes, when they are present and not
  the empty string, then a newline, then the labelled reason.\<close>

definition appendNote :: "string option \<Rightarrow> string \<Rightarrow> string \<Rightarrow> string" where
  "appendNote old label reason =
     (case old of
        Some t \<Rightarrow> if t \<noteq> [] then t @ [CHR 0x0A] @ label @ reason else label @ reason
      | None \<Rightarrow> label @ reason)"

text \<open>The instance methods. Each runs on a document in memory, whose change tracking
  (\<^verbatim>\<open>isNew\<close> and the paths written so far) decides what the hook does on \<^verbatim>\<open>save\<close>; the
  method adds the paths it writes.\<close>

definition cancel ::
  "date \<Rightarrow> bool \<Rightarrow> string list \<Rightarrow> string \<Rightarrow> subscription \<Rightarrow> db \<Rightarrow> subscription \<times> db" where
  "cancel now isNew modified reason this d =
     (let this1 = this\<lparr>status := Cancelled\<rparr>;
          this2 = this1\<lparr>subscription_dates := (subscription_dates this1)\<lparr>cancelledDate := Some now\<rparr>\<rparr>;
          this3 = this2\<lparr>subscription_metadata := (subscription_metadata this2)
                    \<lparr>metadata_notes := Some (appendNote (metadata_notes (subscription_metadata this2)) ''Cancelled: '' reason)\<rparr>\<rparr>
      in save now isNew (modified @ [''status'', ''dates.cancelledDate'', ''metadata.notes'']) this3 d)"

definition pause ::
  "date \<Rightarrow> bool \<Rightarrow> string list \<Rightarrow> string \<Rightarrow> subscription \<Rightarrow> db \<Rightarrow> subscription \<times> db" where
  "pause now isNew modified reason this d =
     (let this1 = this\<lparr>status := Paused\<rparr>;
          this2 = this1\<lparr>subscription_dates := (subscription_dates this1)\<lparr>pausedDate := Some now\<rparr>\<rparr>;
          this3 = this2\<lparr>subscription_metadata := (subscription_metadata this2)
                    \<lparr>metadata_notes := Some (appendNote (metadata_notes (subscription_metadata this2)) ''Paused: '' reason)\<rparr>\<rparr>
      in save now isNew (modified @ [''status'', ''dates.pausedDate'', ''metadata.notes'']) this3 d)"

definition resume ::
  "date \<Rightarrow> bool \<Rightarrow> string list \<Rightarrow> subscription \<Rightarrow> db \<Rightarrow> subscription \<times> db" where
  "resume now isNew modified this d =
     (let this1 = this\<lparr>status := Active\<rparr>;
          this2 = this1\<lparr>subscription_dates := (subscription_dates this1)\<lparr>pausedDate := None\<rparr>\<rparr>
      in save now isNew (modified @ [''status'', ''dates.pausedDate'']) this2 d)"



section \<open>The Service model\<close>

text \<open>A number is truthy when it is present and not zero.\<close>

definition truthyInt :: "int option \<Rightarrow> bool" where
  "truthyInt n = (case n of None \<Rightarrow> False | Some k \<Rightarrow> k \<noteq> 0)"

definition truthyRat :: "rat option \<Rightarrow> bool" where
  "truthyRat n = (case n of None \<Rightarrow> False | Some k \<Rightarrow> k \<noteq> 0)"

text \<open>The virtual \<^verbatim>\<open>isAvailable\<close>.\<close>

definition isAvailable :: "service \<Rightarrow> bool" where
  "isAvailable this =
     (if \<not> isActive (service_availability this) then False
      else if truthyInt (maxSubscriptions (service_availability this)) \<and>
              (case maxSubscriptions (service_availability this) of
                 Some m \<Rightarrow> currentSubscriptions (service_availability this) \<ge> m
               | None \<Rightarrow> False)
      then False
      else True)"

definition storeService :: "service \<Rightarrow> db \<Rightarrow> db" where
  "storeService this d =
     d\<lparr>serviceDocs := map (\<lambda>s. if service_id s = service_id this then this else s) (serviceDocs d)\<rparr>"

definition incrementSubscriptions :: "service \<Rightarrow> db \<Rightarrow> service \<times> db" where
  "incrementSubscriptions this d =
     (let this' = this\<lparr>service_availability := (service_availability this)
                    \<lparr>currentSubscriptions := currentSubscriptions (service_availability this) + 1\<rparr>\<rparr>
      in (this', storeService this' d))"

definition decrementSubscriptions :: "service \<Rightarrow> db \<Rightarrow> service \<times> db" where
  "decrementSubscriptions this d =
     (let this' =
        (if currentSubscriptions (service_availability this) > 0
         then this\<lparr>service_availability := (service_availability this)
                \<lparr>currentSubscriptions := currentSubscriptions (service_availability this) - 1\<rparr>\<rparr>
         else this)
      in (this', storeService this' d))"

section \<open>Middleware\<close>

definition requireCustomerOrAdmin :: "user option \<Rightarrow> error option" where
  "requireCustomerOrAdmin u =
     (case u of
        None \<Rightarrow> Some AuthenticationRequired
      | Some v \<Rightarrow> if role v \<notin> set [''customer'', ''admin''] then Some InvalidUserRole else None)"

definition requireAdmin :: "user option \<Rightarrow> error option" where
  "requireAdmin u =
     (case u of
        None \<Rightarrow> Some AuthenticationRequired
      | Some v \<Rightarrow> if role v \<noteq> ''admin'' then Some AdminRequired else None)"

text \<open>\<^verbatim>\<open>Subscription.countDocuments({userId, status: 'active'})\<close>.\<close>

definition countActive :: "objectId \<Rightarrow> db \<Rightarrow> nat" where
  "countActive uid d =
     length (filter (\<lambda>s. userId s = uid \<and> status s = Active) (subscriptionDocs d))"

text \<open>\<^verbatim>\<open>validateSubscriptionLimits\<close>, given \<^verbatim>\<open>req.user\<close> and the number of entries of
  \<^verbatim>\<open>req.body.services\<close>.\<close>

definition validateSubscriptionLimits :: "user option \<Rightarrow> nat \<Rightarrow> db \<Rightarrow> error option" where
  "validateSubscriptionLimits u requested d =
     (case u of
        None \<Rightarrow> Some AuthenticationRequired
      | Some v \<Rightarrow>
          let activeSubscriptions = countActive (user_id v) d;
              totalServices = activeSubscriptions + requested
          in if totalServices > 5 then Some (SubscriptionLimit activeSubscriptions) else None)"

section \<open>POST /api/subscriptions\<close>

record requestedService =
  req_serviceId :: objectId
  req_quantity :: "int option"
  req_customizations :: "(string \<times> string) list option"

text \<open>The request as the handler sees it. \<^verbatim>\<open>fieldErrors\<close> stands for the findings of the
  validators on the service ids, the plan name and the address; the validators on the
  \<^verbatim>\<open>services\<close> array and on the quantities are \<^verbatim>\<open>validationErrors\<close> below.\<close>

record createRequest =
  req_user :: "user option"
  req_services :: "requestedService list"
  req_billingCycle :: "billingCycle option"
  req_address :: address
  fieldErrors :: bool

definition validationErrors :: "createRequest \<Rightarrow> bool" where
  "validationErrors req =
     (length (req_services req) < 1 \<or>
      (\<exists>r \<in> set (req_services req). case req_quantity r of Some q \<Rightarrow> q < 1 | None \<Rightarrow> False) \<or>
      fieldErrors req)"

text \<open>\<^verbatim>\<open>Service.find({_id: {$in: serviceIds}, 'availability.isActive': true})\<close>.\<close>

definition findServices :: "objectId list \<Rightarrow> db \<Rightarrow> service list" where
  "findServices serviceIds d =
     filter (\<lambda>s. service_id s \<in> set serviceIds \<and> isActive (service_availability s)) (serviceDocs d)"

text \<open>The three checks of the first loop's body on one requested service. A comparison
  with a missing quantity is false (\<^verbatim>\<open>undefined > n\<close>, and \<^verbatim>\<open>NaN > n\<close> for the order
  value).\<close>

definition checkService :: "service \<Rightarrow> requestedService \<Rightarrow> error option" where
  "checkService service requestedService =
     (if (case req_quantity requestedService of
            Some q \<Rightarrow> q > maxQuantityPerUser (service_constraints service)
          | None \<Rightarrow> False)
      then Some (MaximumQuantity (maxQuantityPerUser (service_constraints service)) (name service))
      else if truthyInt (maxSubscriptions (service_availability service)) \<and>
              (case maxSubscriptions (service_availability service) of
                 Some m \<Rightarrow> currentSubscriptions (service_availability service) \<ge> m
               | None \<Rightarrow> False)
      then Some (CurrentlyNotAvailable (name service))
      else if service_category service = Silver \<and>
              truthyRat (maxOnlineOrderValue (service_constraints service))
      then (case maxOnlineOrderValue (service_constraints service) of
              Some v \<Rightarrow>
                (case req_quantity requestedService of
                   Some q \<Rightarrow>
                     if amount (service_price service) * of_int q > v then Some (RequiresQuote v) else None
                 | None \<Rightarrow> None)
            | None \<Rightarrow> None)
      else None)"

text \<open>The first loop. \<^verbatim>\<open>foundServices.find\<close> that finds nothing gives \<^verbatim>\<open>undefined\<close>, and
  reading its \<^verbatim>\<open>constraints\<close> throws: the handler's \<^verbatim>\<open>catch\<close> answers 500.\<close>

fun checkServices :: "service list \<Rightarrow> requestedService list \<Rightarrow> error option" where
  "checkServices foundServices [] = None"
| "checkServices foundServices (requestedService # rest) =
     (case find (\<lambda>s. service_id s = req_serviceId requestedService) foundServices of
        None \<Rightarrow> Some ServerError
      | Some service \<Rightarrow>
          (case checkService service requestedService of
             Some e \<Rightarrow> Some e
           | None \<Rightarrow> checkServices foundServices rest))"

text \<open>\<^verbatim>\<open>requestedService.quantity || 1\<close>.\<close>

definition quantityOrOne :: "int option \<Rightarrow> int" where
  "quantityOrOne q = (case q of Some k \<Rightarrow> if k \<noteq> 0 then k else 1 | None \<Rightarrow> 1)"

text \<open>The second loop, with its two accumulators.\<close>

fun priceServices ::
  "service list \<Rightarrow> requestedService list \<Rightarrow> rat \<Rightarrow> lineItem list \<Rightarrow> (rat \<times> lineItem list) option" where
  "priceServices foundServices [] sub_total subscriptionServices = Some (sub_total, subscriptionServices)"
| "priceServices foundServices (requestedService # rest) sub_total subscriptionServices =
     (case find (\<lambda>s. service_id s = req_serviceId requestedService) foundServices of
        None \<Rightarrow> None
      | Some service \<Rightarrow>
          let qty = quantityOrOne (req_quantity requestedService);
              serviceTotal = amount (service_price service) * of_int qty
          in priceServices foundServices rest (sub_total + serviceTotal)
               (subscriptionServices @
                [\<lparr>serviceId = service_id service,
                  quantity = qty,
                  customizations = (case req_customizations requestedService of Some c \<Rightarrow> c | None \<Rightarrow> []),
                  priceAtSubscription =
                    \<lparr>amount = amount (service_price service),
                     currency = currency (service_price service),
                     price_billingCycle = price_billingCycle (service_price service)\<rparr>\<rparr>]))"

text \<open>\<^verbatim>\<open>Math.round\<close>: the nearest integer, a tie going up.\<close>

definition Math_round :: "rat \<Rightarrow> int" where
  "Math_round x = \<lfloor>x + 1 / 2\<rfloor>"


text \<open>The handler. \<^verbatim>\<open>now\<close> is the clock and \<^verbatim>\<open>newId\<close> the id the driver gives the new
  document.\<close>

definition createSubscription ::
  "date \<Rightarrow> objectId \<Rightarrow> user \<Rightarrow> createRequest \<Rightarrow> db \<Rightarrow> (error + subscription) \<times> db" where
  "createSubscription now newId u req d =
     (if validationErrors req then (Inl ValidationFailed, d)
      else
        let serviceIds = map req_serviceId (req_services req);
            foundServices = findServices serviceIds d
        in if length foundServices \<noteq> length serviceIds then (Inl ServicesNotAvailable, d)
           else
             (case checkServices foundServices (req_services req) of
                Some e \<Rightarrow> (Inl e, d)
              | None \<Rightarrow>
                  (case priceServices foundServices (req_services req) 0 [] of
                     None \<Rightarrow> (Inl ServerError, d)
                   | Some (sub_total, subscriptionServices) \<Rightarrow>
                       let tax = of_int (Math_round (sub_total * (18 / 100)));
                           tot = sub_total + tax;
                           subscription =
                             \<lparr>subscription_id = newId,
                              userId = user_id u,
                              services = subscriptionServices,
                              subscription_pricing =
                                \<lparr>subtotal = sub_total, taxes = tax, discounts = 0, total = tot,
                                 pricing_currency = ''INR''\<rparr>,
                              billingCycle = (case req_billingCycle req of Some c \<Rightarrow> c | None \<Rightarrow> Monthly),
                              status = Pending,
                              subscription_paymentStatus = PaymentPending,
                              subscription_dates =
                                \<lparr>startDate = Some now, endDate = None, nextBillingDate = None,
                                 lastPaymentDate = None, cancelledDate = None, pausedDate = None\<rparr>,
                              installation_isRequired =
                                (\<exists>s \<in> set foundServices. service_category s \<in> set [Cable, Internet]),
                              subscription_address = req_address req,
                              paymentHistory = [],
                              subscription_metadata = \<lparr>source = ''web'', metadata_notes = None\<rparr>\<rparr>;
                           (saved, d1) = save now True [] subscription d;
                           d2 = foldl (\<lambda>acc service. snd (incrementSubscriptions service acc)) d1 foundServices
                       in (Inr saved, d2))))"

text \<open>The route: the middleware chain, then the handler.\<close>

definition post_subscriptions ::
  "date \<Rightarrow> objectId \<Rightarrow> createRequest \<Rightarrow> db \<Rightarrow> (error + subscription) \<times> db" where
  "post_subscriptions now newId req d =
     (case requireCustomerOrAdmin (req_user req) of
        Some e \<Rightarrow> (Inl e, d)
      | None \<Rightarrow>
          (case validateSubscriptionLimits (req_user req) (length (req_services req)) d of
             Some e \<Rightarrow> (Inl e, d)
           | None \<Rightarrow>
               (case req_user req of
                  None \<Rightarrow> (Inl AuthenticationRequired, d)
                | Some u \<Rightarrow> createSubscription now newId u req d)))"

section \<open>The lifecycle routes\<close>

definition findSubscriptionById :: "objectId \<Rightarrow> db \<Rightarrow> subscription option" where
  "findSubscriptionById i d = find (\<lambda>s. subscription_id s = i) (subscriptionDocs d)"

definition findServiceById :: "objectId \<Rightarrow> db \<Rightarrow> service option" where
  "findServiceById i d = find (\<lambda>s. service_id s = i) (serviceDocs d)"

text \<open>The loop of the cancel route over the line items of the cancelled subscription.\<close>

fun decrementAll :: "lineItem list \<Rightarrow> db \<Rightarrow> db" where
  "decrementAll [] d = d"
| "decrementAll (item # rest) d =
     (case findServiceById (serviceId item) d of
        Some serviceDoc \<Rightarrow> decrementAll rest (snd (decrementSubscriptions serviceDoc d))
      | None \<Rightarrow> decrementAll rest d)"

text \<open>PUT /api/subscriptions/:id/cancel. \<^verbatim>\<open>reason\<close> is \<^verbatim>\<open>req.body.reason\<close>.\<close>

definition put_cancel ::
  "date \<Rightarrow> user option \<Rightarrow> objectId \<Rightarrow> string option \<Rightarrow> db \<Rightarrow> (error + subscription) \<times> db" where
  "put_cancel now u i reason d =
     (case requireCustomerOrAdmin u of
        Some e \<Rightarrow> (Inl e, d)
      | None \<Rightarrow>
     (case u of
        None \<Rightarrow> (Inl AuthenticationRequired, d)
      | Some v \<Rightarrow>
     (case findSubscriptionById i d of
        None \<Rightarrow> (Inl SubscriptionNotFound, d)
      | Some subscription \<Rightarrow>
          if role v \<noteq> ''admin'' \<and> userId subscription \<noteq> user_id v then (Inl AccessDenied, d)
          else if status subscription \<in> set [Cancelled, Expired] then (Inl AlreadyCancelledOrExpired, d)
          else
            let (cancelled, d1) =
                  cancel now False [] (case reason of Some r \<Rightarrow> r | None \<Rightarrow> ''User requested cancellation'')
                    subscription d;
                d2 = decrementAll (services cancelled) d1
            in (Inr cancelled, d2))))"


text \<open>PUT /api/subscriptions/:id/resume.\<close>

definition put_resume ::
  "date \<Rightarrow> user option \<Rightarrow> objectId \<Rightarrow> db \<Rightarrow> (error + subscription) \<times> db" where
  "put_resume now u i d =
     (case requireCustomerOrAdmin u of
        Some e \<Rightarrow> (Inl e, d)
      | None \<Rightarrow>
     (case u of
        None \<Rightarrow> (Inl AuthenticationRequired, d)
      | Some v \<Rightarrow>
     (case findSubscriptionById i d of
        None \<Rightarrow> (Inl SubscriptionNotFound, d)
      | Some subscription \<Rightarrow>
          if role v \<noteq> ''admin'' \<and> userId subscription \<noteq> user_id v then (Inl AccessDenied, d)
          else if status subscription \<noteq> Paused then (Inl OnlyPausedCanBeResumed, d)
          else
            let (resumed, d1) = resume now False [] subscription d
            in (Inr resumed, d1))))"

text \<open>PUT /api/admin/subscriptions/:id/status: the administrator's override. The
  validators admit the six status values only and a reason of at most 500 characters.
  The methods are called without the guards of the user routes.\<close>

definition admin_put_status ::
  "date \<Rightarrow> user option \<Rightarrow> objectId \<Rightarrow> subscriptionStatus \<Rightarrow> string option \<Rightarrow> db
     \<Rightarrow> (error + subscription) \<times> db" where
  "admin_put_status now u i newStatus reason d =
     (case requireAdmin u of
        Some e \<Rightarrow> (Inl e, d)
      | None \<Rightarrow>
     if (case reason of Some r \<Rightarrow> length r > 500 | None \<Rightarrow> False) then (Inl ValidationFailed, d)
     else
     (case findSubscriptionById i d of
        None \<Rightarrow> (Inl SubscriptionNotFound, d)
      | Some subscription \<Rightarrow>
          let why = (case reason of Some r \<Rightarrow> r | None \<Rightarrow> ''Admin action'');
              (updated, d1) =
                (case newStatus of
                   Cancelled \<Rightarrow> cancel now False [] why subscription d
                 | Paused \<Rightarrow> pause now False [] why subscription d
                 | Active \<Rightarrow>
                     if status subscription = Paused then resume now False [] subscription d
                     else save now False [''status''] (subscription\<lparr>status := newStatus\<rparr>) d
                 | _ \<Rightarrow> save now False [''status''] (subscription\<lparr>status := newStatus\<rparr>) d)
          in (Inr updated, d1)))"

section \<open>Sequences of operations\<close>

text \<open>The requests that create or cancel subscriptions, and their effect on the store when
  they are served one after the other.\<close>

datatype operation =
    Create date objectId createRequest
  | Cancel date "user option" objectId "string option"
  | AdminSetStatus date "user option" objectId subscriptionStatus "string option"

fun step :: "operation \<Rightarrow> db \<Rightarrow> db" where
  "step (Create now newId req) d = snd (post_subscriptions now newId req d)"
| "step (Cancel now u i reason) d = snd (put_cancel now u i reason d)"
| "step (AdminSetStatus now u i newStatus reason) d = snd (admin_put_status now u i newStatus reason d)"

fun run :: "operation list \<Rightarrow> db \<Rightarrow> db" where
  "run [] d = d"
| "run (operation # rest) d = run rest (step operation d)"

section \<open>The specification's notions, for comparison with the code\<close>

text \<open>The counter of a service is never negative.\<close>

definition counterNonNegative :: "service \<Rightarrow> bool" where
  "counterNonNegative s = (0 \<le> currentSubscriptions (service_availability s))"

text \<open>The counter does not exceed the cap when a cap is set (any value but \<^verbatim>\<open>null\<close>).\<close>

definition withinCapacity :: "service \<Rightarrow> bool" where
  "withinCapacity s =
     (case maxSubscriptions (service_availability s) of
        None \<Rightarrow> True
      | Some m \<Rightarrow> currentSubscriptions (service_availability s) \<le> m)"

text \<open>The counter does not exceed the cap when the cap is set and is not zero.\<close>

definition withinNonZeroCapacity :: "service \<Rightarrow> bool" where
  "withinNonZeroCapacity s =
     (case maxSubscriptions (service_availability s) of
        None \<Rightarrow> True
      | Some m \<Rightarrow> m = 0 \<or> currentSubscriptions (service_availability s) \<le> m)"








text \<open>A date plus \<open>n\<close> calendar months: the same day of the month and time of day, \<open>n\<close>
  months later; a day that the target month does not have runs over into the month after
  it, by as many days as it exceeds the month's length (the platform's convention).\<close>

definition plusCalendarMonths :: "nat \<Rightarrow> date \<Rightarrow> date" where
  "plusCalendarMonths n d =
     (let k = 12 * fullYear d + int (monthIndex d) + int n;
          len = daysInMonth (k div 12) (nat (k mod 12))
      in if dayOfMonth d \<le> len
         then \<lparr>fullYear = k div 12, monthIndex = nat (k mod 12),
               dayOfMonth = dayOfMonth d, timeInDay = timeInDay d\<rparr>
         else \<lparr>fullYear = (k + 1) div 12, monthIndex = nat ((k + 1) mod 12),
               dayOfMonth = dayOfMonth d - len, timeInDay = timeInDay d\<rparr>)"

definition plusCalendarYears :: "nat \<Rightarrow> date \<Rightarrow> date" where
  "plusCalendarYears n d = plusCalendarMonths (12 * n) d"

text \<open>The two bounds on a service's counter that the code keeps, and the store in which
  every service has its own id and keeps them.\<close>

definition serviceOk :: "service \<Rightarrow> bool" where
  "serviceOk s = (counterNonNegative s \<and> withinNonZeroCapacity s)"

definition storeOk :: "db \<Rightarrow> bool" where
  "storeOk d = (distinct (map service_id (serviceDocs d)) \<and> (\<forall>s \<in> set (serviceDocs d). serviceOk s))"

section \<open>Example data\<close>

definition exampleStart :: date where
  "exampleStart = \<lparr>fullYear = 2024, monthIndex = 0, dayOfMonth = 15, timeInDay = 0\<rparr>"

definition exampleNow :: date where
  "exampleNow = \<lparr>fullYear = 2024, monthIndex = 2, dayOfMonth = 10, timeInDay = 3600000\<rparr>"

definition exampleService :: service where
  "exampleService =
     \<lparr>service_id = ''svc1'', name = ''Fiber 100'', service_category = Internet,
      service_price = \<lparr>amount = 500, currency = ''INR'', price_billingCycle = Monthly\<rparr>,
      service_availability = \<lparr>isActive = True, maxSubscriptions = Some 10, currentSubscriptions = 1\<rparr>,
      service_constraints =
        \<lparr>maxQuantityPerUser = 5, minSubscriptionPeriod = 1, maxOnlineOrderValue = None,
         requiresQuote = False\<rparr>\<rparr>"

definition exampleAddress :: address where
  "exampleAddress = \<lparr>street = ''12 Main Road'', city = ''Chennai'', state = ''TN'', pincode = ''600001''\<rparr>"

definition exampleSubscription :: subscription where
  "exampleSubscription =
     \<lparr>subscription_id = ''sub1'', userId = ''u1'',
      services =
        [\<lparr>serviceId = ''svc1'', quantity = 2, customizations = [],
          priceAtSubscription = \<lparr>amount = 500, currency = ''INR'', price_billingCycle = Monthly\<rparr>\<rparr>],
      subscription_pricing =
        \<lparr>subtotal = 1000, taxes = 180, discounts = 0, total = 1180, pricing_currency = ''INR''\<rparr>,
      billingCycle = Monthly, status = Active, subscription_paymentStatus = PaymentPending,
      subscription_dates =
        \<lparr>startDate = Some exampleStart, endDate = None,
         nextBillingDate = Some \<lparr>fullYear = 2024, monthIndex = 1, dayOfMonth = 15, timeInDay = 0\<rparr>,
         lastPaymentDate = None, cancelledDate = None, pausedDate = None\<rparr>,
      installation_isRequired = True, subscription_address = exampleAddress,
      paymentHistory = [],
      subscription_metadata = \<lparr>source = ''web'', metadata_notes = Some ''Phone order''\<rparr>\<rparr>"

definition exampleUser :: user where
  "exampleUser = \<lparr>user_id = ''u1'', role = ''customer''\<rparr>"

definition exampleDb :: db where
  "exampleDb = \<lparr>serviceDocs = [exampleService], subscriptionDocs = [exampleSubscription]\<rparr>"

definition exampleDbWith :: "subscriptionStatus \<Rightarrow> db" where
  "exampleDbWith st =
     \<lparr>serviceDocs = [exampleService], subscriptionDocs = [exampleSubscription\<lparr>status := st\<rparr>]\<rparr>"

definition examplePayment :: paymentData where
  "examplePayment =
     \<lparr>pd_amount = 1180, pd_currency = None, pd_paymentMethod = ''upi'',
      pd_transactionId = Some ''TXN-1'', pd_status = Some Success, pd_paidAt = None, pd_notes = None\<rparr>"

definition exampleRequest :: createRequest where
  "exampleRequest =
     \<lparr>req_user = Some exampleUser,
      req_services = [\<lparr>req_serviceId = ''svc1'', req_quantity = Some 2, req_customizations = None\<rparr>],
      req_billingCycle = None, req_address = exampleAddress, fieldErrors = False\<rparr>"

text \<open>A service whose cap is zero, and an order for it.\<close>

definition zeroCapService :: service where
  "zeroCapService =
     \<lparr>service_id = ''svc0'', name = ''Pilot plan'', service_category = Gaming,
      service_price = \<lparr>amount = 300, currency = ''INR'', price_billingCycle = Monthly\<rparr>,
      service_availability = \<lparr>isActive = True, maxSubscriptions = Some 0, currentSubscriptions = 0\<rparr>,
      service_constraints =
        \<lparr>maxQuantityPerUser = 1, minSubscriptionPeriod = 1, maxOnlineOrderValue = None,
         requiresQuote = False\<rparr>\<rparr>"

definition zeroCapDb :: db where
  "zeroCapDb = \<lparr>serviceDocs = [zeroCapService], subscriptionDocs = []\<rparr>"

definition zeroCapRequest :: createRequest where
  "zeroCapRequest =
     \<lparr>req_user = Some exampleUser,
      req_services = [\<lparr>req_serviceId = ''svc0'', req_quantity = Some 1, req_customizations = None\<rparr>],
      req_billingCycle = None, req_address = exampleAddress, fieldErrors = False\<rparr>"

text \<open>A store in which the example user has five active subscriptions.\<close>

definition fiveActiveDb :: db where
  "fiveActiveDb =
     \<lparr>serviceDocs = [exampleService],
      subscriptionDocs =
        map (\<lambda>i. exampleSubscription\<lparr>subscription_id := i\<rparr>) [''s1'', ''s2'', ''s3'', ''s4'', ''s5'']\<rparr>"

text \<open>A store whose only service has reached its cap of one.\<close>

definition soldOutDb :: db where
  "soldOutDb =
     \<lparr>serviceDocs =
        [exampleService\<lparr>service_availability :=
           \<lparr>isActive = True, maxSubscriptions = Some 1, currentSubscriptions = 1\<rparr>\<rparr>],
      subscriptionDocs = []\<rparr>"

text \<open>A store whose only service is free of charge.\<close>

definition freeDb :: db where
  "freeDb =
     \<lparr>serviceDocs =
        [exampleService\<lparr>service_price := \<lparr>amount = 0, currency = ''INR'', price_billingCycle = Monthly\<rparr>\<rparr>],
      subscriptionDocs = []\<rparr>"

section \<open>Properties\<close>

lemmas example_defs = exampleDbWith_def exampleSubscription_def exampleService_def exampleUser_def
  exampleNow_def exampleStart_def exampleAddress_def examplePayment_def exampleRequest_def exampleDb_def
  zeroCapService_def zeroCapDb_def zeroCapRequest_def fiveActiveDb_def soldOutDb_def freeDb_def

lemmas route_defs = post_subscriptions_def requireCustomerOrAdmin_def validateSubscriptionLimits_def
        countActive_def createSubscription_def validationErrors_def findServices_def checkService_def
        truthyInt_def truthyRat_def quantityOrOne_def save_def pre_save_def Let_def
        incrementSubscriptions_def storeService_def storeSubscription_def

lemma find_replaced:
  "find (\<lambda>s. subscription_id s = i) xs = Some s0 \<Longrightarrow> subscription_id t = i \<Longrightarrow>
   find (\<lambda>s. subscription_id s = i) (map (\<lambda>s. if subscription_id s = i then t else s) xs) = Some t"
  by (induction xs) (auto split: if_splits)

lemma findSubscriptionById_id: "findSubscriptionById i d = Some s \<Longrightarrow> subscription_id s = i"
  by (auto simp: findSubscriptionById_def find_Some_iff)




lemma pre_save_untouched:
  "\<not> isModified m ''dates.startDate'' \<Longrightarrow> \<not> isModified m ''billingCycle'' \<Longrightarrow>
   pre_save now False m s = s"
  by (simp add: pre_save_def)

lemma save_existing:
  "\<not> isModified m ''dates.startDate'' \<Longrightarrow> \<not> isModified m ''billingCycle'' \<Longrightarrow>
   save now False m s d = (s, storeSubscription False s d)"
  by (simp add: save_def pre_save_untouched)

lemma lifecycle_paths:
  "\<not> isModified [''status'', ''dates.cancelledDate'', ''metadata.notes''] ''dates.startDate''"
  "\<not> isModified [''status'', ''dates.cancelledDate'', ''metadata.notes''] ''billingCycle''"
  "\<not> isModified [''status'', ''dates.pausedDate'', ''metadata.notes''] ''dates.startDate''"
  "\<not> isModified [''status'', ''dates.pausedDate'', ''metadata.notes''] ''billingCycle''"
  "\<not> isModified [''status'', ''dates.pausedDate''] ''dates.startDate''"
  "\<not> isModified [''status'', ''dates.pausedDate''] ''billingCycle''"
  by (simp_all add: isModified_def)

lemma findSubscriptionById_store:
  "findSubscriptionById i d = Some s0 \<Longrightarrow> subscription_id t = i \<Longrightarrow>
   findSubscriptionById i (storeSubscription False t d) = Some t"
  by (simp add: findSubscriptionById_def storeSubscription_def find_replaced)






text \<open>The administrator's status override reaches the method without the guard of the
  route: it cancels a subscription whatever its status is, a cancelled one again.\<close>

lemma admin_override_cancel:
  assumes "requireAdmin u = None" and "findSubscriptionById i d = Some s"
    and "reason = Some r" and "length r \<le> 500"
  shows "fst (admin_put_status now u i Cancelled reason d) =
           Inr (s\<lparr>status := Cancelled,
                   subscription_dates := (subscription_dates s)\<lparr>cancelledDate := Some now\<rparr>,
                   subscription_metadata := (subscription_metadata s)
                     \<lparr>metadata_notes :=
                        Some (appendNote (metadata_notes (subscription_metadata s)) ''Cancelled: '' r)\<rparr>\<rparr>)"
  using assms
  by (simp add: admin_put_status_def cancel_def Let_def save_existing lifecycle_paths)





lemma put_resume_rejected_unchanged: "put_resume now u i d = (Inl e, d') \<Longrightarrow> d' = d"
  by (auto simp: put_resume_def Let_def split: option.splits if_splits prod.splits)

lemma put_resume_only_paused:
  "put_resume now u i d = (Inr s', d') \<Longrightarrow> \<exists>s. findSubscriptionById i d = Some s \<and> status s = Paused"
  by (auto simp: put_resume_def Let_def split: option.splits if_splits prod.splits)

text \<open>
  C9. The resume operation (PUT /api/subscriptions/:id/resume). It succeeds only on a
  subscription whose status is paused; then, for the owner or an administrator, the
  subscription comes back with status active and \<^verbatim>\<open>pausedDate\<close> cleared, nothing else
  changed, and is stored so. From every other status the request is rejected, and every
  rejected request leaves the store as it was.
\<close>

theorem resume_operation:
  assumes found: "findSubscriptionById i d = Some s"
  shows "(\<forall>s' d'. put_resume now u i d = (Inr s', d') \<longrightarrow> status s = Paused) \<and>
         (\<forall>e d'. put_resume now u i d = (Inl e, d') \<longrightarrow> d' = d) \<and>
         (status s \<noteq> Paused \<longrightarrow>
            (\<exists>e. put_resume now u i d = (Inl e, d)) \<and>
            (u = Some v \<and> requireCustomerOrAdmin u = None \<and> (role v = ''admin'' \<or> userId s = user_id v) \<longrightarrow>
               put_resume now u i d = (Inl OnlyPausedCanBeResumed, d))) \<and>
         (status s = Paused \<and> u = Some v \<and> requireCustomerOrAdmin u = None \<and>
          (role v = ''admin'' \<or> userId s = user_id v) \<longrightarrow>
            (\<exists>s' d'. put_resume now u i d = (Inr s', d') \<and>
               s' = s\<lparr>status := Active,
                       subscription_dates := (subscription_dates s)\<lparr>pausedDate := None\<rparr>\<rparr> \<and>
               findSubscriptionById i d' = Some s'))"
proof (intro conjI impI allI)
  fix s' d' assume "put_resume now u i d = (Inr s', d')"
  from put_resume_only_paused[OF this] found show "status s = Paused" by simp
next
  fix e d' assume "put_resume now u i d = (Inl e, d')"
  then show "d' = d" by (rule put_resume_rejected_unchanged)
next
  assume "status s \<noteq> Paused"
  then show "\<exists>e. put_resume now u i d = (Inl e, d)"
    using found by (auto simp: put_resume_def split: option.splits)
next
  assume "status s \<noteq> Paused"
    and "u = Some v \<and> requireCustomerOrAdmin u = None \<and> (role v = ''admin'' \<or> userId s = user_id v)"
  then show "put_resume now u i d = (Inl OnlyPausedCanBeResumed, d)"
    using found by (auto simp: put_resume_def)
next
  assume a: "status s = Paused \<and> u = Some v \<and> requireCustomerOrAdmin u = None \<and>
          (role v = ''admin'' \<or> userId s = user_id v)"
  define s' where "s' = s\<lparr>status := Active,
                       subscription_dates := (subscription_dates s)\<lparr>pausedDate := None\<rparr>\<rparr>"
  have c: "resume now False [] s d = (s', storeSubscription False s' d)"
    by (simp add: resume_def Let_def save_existing lifecycle_paths s'_def)
  have run: "put_resume now u i d = (Inr s', storeSubscription False s' d)"
    using a found c by (auto simp: put_resume_def)
  have id: "subscription_id s' = i"
    using findSubscriptionById_id[OF found] by (simp add: s'_def)
  have f: "findSubscriptionById i (storeSubscription False s' d) = Some s'"
    using found id by (rule findSubscriptionById_store)
  show "\<exists>s' d'. put_resume now u i d = (Inr s', d') \<and>
               s' = s\<lparr>status := Active,
                       subscription_dates := (subscription_dates s)\<lparr>pausedDate := None\<rparr>\<rparr> \<and>
               findSubscriptionById i d' = Some s'"
    using run f unfolding s'_def[symmetric] by blast
qed

theorem resume_operation_witness:
  "findSubscriptionById ''sub1'' (exampleDbWith Paused) = Some (exampleSubscription\<lparr>status := Paused\<rparr>) \<and>
   (\<exists>s' d'. put_resume exampleNow (Some exampleUser) ''sub1'' (exampleDbWith Paused) = (Inr s', d') \<and>
            status s' = Active \<and> pausedDate (subscription_dates s') = None) \<and>
   findSubscriptionById ''sub1'' (exampleDbWith Active) = Some (exampleSubscription\<lparr>status := Active\<rparr>) \<and>
   put_resume exampleNow (Some exampleUser) ''sub1'' (exampleDbWith Active)
     = (Inl OnlyPausedCanBeResumed, exampleDbWith Active)"
proof -
  have h1: "findSubscriptionById ''sub1'' (exampleDbWith Paused) = Some (exampleSubscription\<lparr>status := Paused\<rparr>)"
    by (simp add: findSubscriptionById_def example_defs)
  have h2: "findSubscriptionById ''sub1'' (exampleDbWith Active) = Some (exampleSubscription\<lparr>status := Active\<rparr>)"
    by (simp add: findSubscriptionById_def example_defs)
  have auth: "requireCustomerOrAdmin (Some exampleUser) = None"
    by (simp add: requireCustomerOrAdmin_def exampleUser_def)
  have own: "userId (exampleSubscription\<lparr>status := Paused\<rparr>) = user_id exampleUser"
            "userId (exampleSubscription\<lparr>status := Active\<rparr>) = user_id exampleUser"
    by (simp_all add: exampleSubscription_def exampleUser_def)
  from resume_operation[OF h1, of exampleNow "Some exampleUser" exampleUser] auth own
  have a: "\<exists>s' d'. put_resume exampleNow (Some exampleUser) ''sub1'' (exampleDbWith Paused) = (Inr s', d') \<and>
            status s' = Active \<and> pausedDate (subscription_dates s') = None"
    by auto
  from resume_operation[OF h2, of exampleNow "Some exampleUser" exampleUser] auth own
  have b: "put_resume exampleNow (Some exampleUser) ''sub1'' (exampleDbWith Active)
     = (Inl OnlyPausedCanBeResumed, exampleDbWith Active)"
    by simp
  from h1 h2 a b show ?thesis by blast
qed

















lemma createSubscription_rejected_unchanged:
  "createSubscription now newId u req d = (Inl e, d') \<Longrightarrow> d' = d"
  by (auto simp: createSubscription_def Let_def split: if_splits option.splits prod.splits)

lemma post_subscriptions_rejected_unchanged:
  "post_subscriptions now newId req d = (Inl e, d') \<Longrightarrow> d' = d"
  by (auto simp: post_subscriptions_def dest: createSubscription_rejected_unchanged split: option.splits)

text \<open>
  C7. The guard on the number of subscriptions, \<^verbatim>\<open>validateSubscriptionLimits\<close>, runs in
  the middleware chain of POST /api/subscriptions before the handler and so before any
  check on a line item: whenever the user's active subscriptions plus the requested
  services number more than 5, the answer is the limit error, whatever the line items
  and the services are. A user who already has 5 active subscriptions (so that one more
  would exceed the limit) is always rejected. Every rejected request leaves the store as
  it was.
\<close>

theorem subscription_limit_guard:
  assumes u: "req_user req = Some u" and r: "requireCustomerOrAdmin (Some u) = None"
  shows "(countActive (user_id u) d + length (req_services req) > 5 \<longrightarrow>
            post_subscriptions now newId req d = (Inl (SubscriptionLimit (countActive (user_id u) d)), d)) \<and>
         (countActive (user_id u) d \<ge> 5 \<longrightarrow> (\<exists>e. post_subscriptions now newId req d = (Inl e, d))) \<and>
         (\<forall>e d'. post_subscriptions now newId req d = (Inl e, d') \<longrightarrow> d' = d)"
proof (intro conjI impI allI)
  assume "countActive (user_id u) d + length (req_services req) > 5"
  then show "post_subscriptions now newId req d = (Inl (SubscriptionLimit (countActive (user_id u) d)), d)"
    using u r by (simp add: post_subscriptions_def validateSubscriptionLimits_def Let_def)
next
  assume five: "countActive (user_id u) d \<ge> 5"
  show "\<exists>e. post_subscriptions now newId req d = (Inl e, d)"
  proof (cases "req_services req")
    case Nil
    then have "validationErrors req" by (simp add: validationErrors_def)
    then have "createSubscription now newId u req d = (Inl ValidationFailed, d)"
      by (simp add: createSubscription_def)
    then show ?thesis
      using u r Nil five by (auto simp: post_subscriptions_def validateSubscriptionLimits_def Let_def)
  next
    case (Cons a list)
    then have "countActive (user_id u) d + length (req_services req) > 5" using five by simp
    then show ?thesis
      using u r by (simp add: post_subscriptions_def validateSubscriptionLimits_def Let_def)
  qed
next
  fix e d' assume "post_subscriptions now newId req d = (Inl e, d')"
  then show "d' = d" by (rule post_subscriptions_rejected_unchanged)
qed

theorem subscription_limit_guard_witness:
  "req_user exampleRequest = Some exampleUser \<and>
   requireCustomerOrAdmin (Some exampleUser) = None \<and>
   countActive (user_id exampleUser) fiveActiveDb = 5 \<and>
   post_subscriptions exampleNow ''sub2'' exampleRequest fiveActiveDb = (Inl (SubscriptionLimit 5), fiveActiveDb)"
proof -
  have u: "req_user exampleRequest = Some exampleUser" by (simp add: exampleRequest_def)
  have r: "requireCustomerOrAdmin (Some exampleUser) = None"
    by (simp add: requireCustomerOrAdmin_def exampleUser_def)
  have c: "countActive (user_id exampleUser) fiveActiveDb = 5"
    by (simp add: countActive_def example_defs)
  have l: "length (req_services exampleRequest) = 1" by (simp add: exampleRequest_def)
  from subscription_limit_guard[OF u r, of fiveActiveDb exampleNow "''sub2''"] c l
  have "post_subscriptions exampleNow ''sub2'' exampleRequest fiveActiveDb = (Inl (SubscriptionLimit 5), fiveActiveDb)"
    by simp
  with u r c show ?thesis by blast
qed

lemma checkService_capacity:
  "checkService svc r = Some (CurrentlyNotAvailable n) \<Longrightarrow>
   n = name svc \<and> (\<exists>m. maxSubscriptions (service_availability svc) = Some m \<and> m \<noteq> 0 \<and>
        currentSubscriptions (service_availability svc) \<ge> m)"
  by (auto simp: checkService_def truthyInt_def split: if_splits option.splits)

lemma checkServices_capacity:
  "checkServices found rs = Some (CurrentlyNotAvailable n) \<Longrightarrow>
   \<exists>svc \<in> set found. n = name svc \<and> (\<exists>m. maxSubscriptions (service_availability svc) = Some m \<and> m \<noteq> 0 \<and>
        currentSubscriptions (service_availability svc) \<ge> m)"
proof (induction rs)
  case Nil
  then show ?case by simp
next
  case (Cons r rs)
  show ?case
  proof (cases "find (\<lambda>s. service_id s = req_serviceId r) found")
    case None
    with Cons.prems show ?thesis by simp
  next
    case (Some svc)
    then have mem: "svc \<in> set found" by (auto simp: find_Some_iff)
    show ?thesis
    proof (cases "checkService svc r")
      case None
      with Some Cons show ?thesis by simp
    next
      case (Some e)
      with \<open>find _ found = Some svc\<close> Cons.prems have "checkService svc r = Some (CurrentlyNotAvailable n)"
        by simp
      from checkService_capacity[OF this] mem show ?thesis by blast
    qed
  qed
qed

text \<open>
  C10. A service whose \<^verbatim>\<open>maxSubscriptions\<close> is 0 is never the reason for a capacity
  rejection, whatever its counter: the check of a line item against it never gives the
  capacity error, its virtual \<^verbatim>\<open>isAvailable\<close> is just \<^verbatim>\<open>isActive\<close>, and whenever
  POST /api/subscriptions rejects for capacity, the service named in the error has a
  cap that is set, is not zero and is reached.
\<close>

theorem zero_capacity_skipped:
  "(maxSubscriptions (service_availability svc) = Some 0 \<longrightarrow>
      checkService svc r \<noteq> Some (CurrentlyNotAvailable n) \<and>
      (isAvailable svc = isActive (service_availability svc))) \<and>
   (post_subscriptions now newId req d = (Inl (CurrentlyNotAvailable n), d') \<longrightarrow>
      (\<exists>s \<in> set (serviceDocs d). name s = n \<and>
         (\<exists>m. maxSubscriptions (service_availability s) = Some m \<and> m \<noteq> 0 \<and>
              currentSubscriptions (service_availability s) \<ge> m)))"
proof (intro conjI impI)
  assume z: "maxSubscriptions (service_availability svc) = Some 0"
  show "checkService svc r \<noteq> Some (CurrentlyNotAvailable n)"
    using checkService_capacity[of svc r n] z by auto
  show "isAvailable svc = isActive (service_availability svc)"
    using z by (simp add: isAvailable_def truthyInt_def)
next
  assume a: "post_subscriptions now newId req d = (Inl (CurrentlyNotAvailable n), d')"
  then obtain u where "createSubscription now newId u req d = (Inl (CurrentlyNotAvailable n), d')"
    by (auto simp: post_subscriptions_def validateSubscriptionLimits_def requireCustomerOrAdmin_def Let_def
          split: option.splits if_splits)
  then have "checkServices (findServices (map req_serviceId (req_services req)) d) (req_services req)
               = Some (CurrentlyNotAvailable n)"
    by (auto simp: createSubscription_def Let_def split: if_splits option.splits prod.splits)
  from checkServices_capacity[OF this]
  show "\<exists>s \<in> set (serviceDocs d). name s = n \<and>
         (\<exists>m. maxSubscriptions (service_availability s) = Some m \<and> m \<noteq> 0 \<and>
              currentSubscriptions (service_availability s) \<ge> m)"
    by (auto simp: findServices_def)
qed

theorem zero_capacity_skipped_witness:
  "maxSubscriptions (service_availability
     (zeroCapService\<lparr>service_availability :=
        \<lparr>isActive = True, maxSubscriptions = Some 0, currentSubscriptions = 7\<rparr>\<rparr>)) = Some 0 \<and>
   checkService
     (zeroCapService\<lparr>service_availability :=
        \<lparr>isActive = True, maxSubscriptions = Some 0, currentSubscriptions = 7\<rparr>\<rparr>)
     \<lparr>req_serviceId = ''svc0'', req_quantity = Some 1, req_customizations = None\<rparr>
     \<noteq> Some (CurrentlyNotAvailable ''Pilot plan'') \<and>
   isAvailable
     (zeroCapService\<lparr>service_availability :=
        \<lparr>isActive = True, maxSubscriptions = Some 0, currentSubscriptions = 7\<rparr>\<rparr>) \<and>
   post_subscriptions exampleNow ''sub2'' exampleRequest soldOutDb
     = (Inl (CurrentlyNotAvailable ''Fiber 100''), soldOutDb) \<and>
   (\<exists>s \<in> set (serviceDocs soldOutDb). name s = ''Fiber 100'' \<and>
      (\<exists>m. maxSubscriptions (service_availability s) = Some m \<and> m \<noteq> 0 \<and>
           currentSubscriptions (service_availability s) \<ge> m))"
proof -
  let ?svc = "zeroCapService\<lparr>service_availability :=
        \<lparr>isActive = True, maxSubscriptions = Some 0, currentSubscriptions = 7\<rparr>\<rparr>"
  have z: "maxSubscriptions (service_availability ?svc) = Some 0" by simp
  have a: "isActive (service_availability ?svc)" by simp
  have r: "post_subscriptions exampleNow ''sub2'' exampleRequest soldOutDb
     = (Inl (CurrentlyNotAvailable ''Fiber 100''), soldOutDb)"
    by (simp add: route_defs example_defs)
  from zero_capacity_skipped[where svc = ?svc and n = "''Pilot plan''" and
         r = "\<lparr>req_serviceId = ''svc0'', req_quantity = Some 1, req_customizations = None\<rparr>"] z a
  have c: "checkService ?svc \<lparr>req_serviceId = ''svc0'', req_quantity = Some 1, req_customizations = None\<rparr>
             \<noteq> Some (CurrentlyNotAvailable ''Pilot plan'') \<and> isAvailable ?svc"
    by blast
  from zero_capacity_skipped[where n = "''Fiber 100''" and now = exampleNow and newId = "''sub2''" and
         req = exampleRequest and d = soldOutDb and d' = soldOutDb] r
  have e: "\<exists>s \<in> set (serviceDocs soldOutDb). name s = ''Fiber 100'' \<and>
      (\<exists>m. maxSubscriptions (service_availability s) = Some m \<and> m \<noteq> 0 \<and>
           currentSubscriptions (service_availability s) \<ge> m)"
    by blast
  from z c r e show ?thesis by blast
qed
















lemma serviceDocs_storeSubscription: "serviceDocs (storeSubscription n s d) = serviceDocs d"
  by (simp add: storeSubscription_def)

lemma serviceDocs_save: "serviceDocs (snd (save now n m s d)) = serviceDocs d"
  by (simp add: save_def Let_def serviceDocs_storeSubscription)

lemma ids_storeService:
  "map service_id (serviceDocs (storeService t d)) = map service_id (serviceDocs d)"
  by (simp add: storeService_def)

lemma ok_storeService:
  "serviceOk t \<Longrightarrow> \<forall>s \<in> set (serviceDocs d). serviceOk s \<Longrightarrow>
   \<forall>s \<in> set (serviceDocs (storeService t d)). serviceOk s"
  by (auto simp: storeService_def)

lemma ok_decrement:
  "serviceOk s \<Longrightarrow> serviceOk (fst (decrementSubscriptions s d))"
  by (auto simp: serviceOk_def counterNonNegative_def withinNonZeroCapacity_def
        decrementSubscriptions_def Let_def split: option.splits)

lemma snd_decrement:
  "snd (decrementSubscriptions s d) = storeService (fst (decrementSubscriptions s d)) d"
  by (simp add: decrementSubscriptions_def Let_def)

lemma findServiceById_mem: "findServiceById i d = Some s \<Longrightarrow> s \<in> set (serviceDocs d)"
  by (auto simp: findServiceById_def find_Some_iff)

lemma decrementAll_ok:
  "\<forall>s \<in> set (serviceDocs d). serviceOk s \<Longrightarrow>
   \<forall>s \<in> set (serviceDocs (decrementAll items d)). serviceOk s"
proof (induction items arbitrary: d)
  case Nil
  then show ?case by simp
next
  case (Cons item items)
  show ?case
  proof (cases "findServiceById (serviceId item) d")
    case None
    then show ?thesis using Cons by simp
  next
    case (Some doc)
    then have "serviceOk doc" using Cons.prems findServiceById_mem by blast
    then have "serviceOk (fst (decrementSubscriptions doc d))" by (rule ok_decrement)
    then have "\<forall>s \<in> set (serviceDocs (snd (decrementSubscriptions doc d))). serviceOk s"
      unfolding snd_decrement using Cons.prems by (rule ok_storeService)
    from Cons.IH[OF this] show ?thesis using Some by simp
  qed
qed

lemma decrementAll_ids:
  "map service_id (serviceDocs (decrementAll items d)) = map service_id (serviceDocs d)"
  by (induction items arbitrary: d) (auto simp: snd_decrement ids_storeService split: option.splits)

lemma snd_increment:
  "snd (incrementSubscriptions s d) = storeService (fst (incrementSubscriptions s d)) d"
  by (simp add: incrementSubscriptions_def Let_def)

lemma increments_ok:
  "\<forall>f \<in> set found. serviceOk (fst (incrementSubscriptions f d0)) \<Longrightarrow>
   \<forall>s \<in> set (serviceDocs d). serviceOk s \<Longrightarrow>
   \<forall>s \<in> set (serviceDocs (foldl (\<lambda>acc service. snd (incrementSubscriptions service acc)) d found)). serviceOk s"
proof (induction found arbitrary: d)
  case Nil
  then show ?case by simp
next
  case (Cons f found)
  have same: "fst (incrementSubscriptions f d) = fst (incrementSubscriptions f d0)"
    by (simp add: incrementSubscriptions_def Let_def)
  have "serviceOk (fst (incrementSubscriptions f d))" using Cons.prems(1) same by simp
  then have "\<forall>s \<in> set (serviceDocs (snd (incrementSubscriptions f d))). serviceOk s"
    unfolding snd_increment using Cons.prems(2) by (rule ok_storeService)
  with Cons.IH[of "snd (incrementSubscriptions f d)"] Cons.prems(1) show ?case by simp
qed

lemma increments_ids:
  "map service_id (serviceDocs (foldl (\<lambda>acc service. snd (incrementSubscriptions service acc)) d found))
   = map service_id (serviceDocs d)"
  by (induction found arbitrary: d) (auto simp: snd_increment ids_storeService)

lemma checkServices_None:
  "checkServices found rs = None \<Longrightarrow> r \<in> set rs \<Longrightarrow>
   \<exists>svc. find (\<lambda>s. service_id s = req_serviceId r) found = Some svc \<and> checkService svc r = None"
  by (induction rs) (auto split: option.splits)

lemma find_distinct_key:
  "distinct (map service_id xs) \<Longrightarrow> f \<in> set xs \<Longrightarrow> find (\<lambda>s. service_id s = service_id f) xs = Some f"
  by (induction xs) (auto simp: rev_image_eqI)

lemma checkService_None_room:
  "checkService svc r = None \<Longrightarrow> maxSubscriptions (service_availability svc) = Some m \<Longrightarrow> m \<noteq> 0 \<Longrightarrow>
   currentSubscriptions (service_availability svc) < m"
  by (auto simp: checkService_def truthyInt_def split: if_splits option.splits)

lemma ok_increment:
  assumes "serviceOk f" and "checkService f r = None"
  shows "serviceOk (fst (incrementSubscriptions f d))"
proof (cases "maxSubscriptions (service_availability f)")
  case None
  with assms(1) show ?thesis
    by (simp add: serviceOk_def counterNonNegative_def withinNonZeroCapacity_def
          incrementSubscriptions_def Let_def)
next
  case (Some m)
  show ?thesis
  proof (cases "m = 0")
    case True
    with Some assms(1) show ?thesis
      by (simp add: serviceOk_def counterNonNegative_def withinNonZeroCapacity_def
            incrementSubscriptions_def Let_def)
  next
    case False
    from checkService_None_room[OF assms(2) Some False] Some assms(1) show ?thesis
      by (simp add: serviceOk_def counterNonNegative_def withinNonZeroCapacity_def
            incrementSubscriptions_def Let_def)
  qed
qed

lemma createSubscription_ok:
  assumes db: "distinct (map service_id (serviceDocs d))"
    and ok: "\<forall>s \<in> set (serviceDocs d). serviceOk s"
  shows "\<forall>s \<in> set (serviceDocs (snd (createSubscription now newId u req d))). serviceOk s"
proof (cases "fst (createSubscription now newId u req d)")
  case (Inl e)
  then have "snd (createSubscription now newId u req d) = d"
    by (auto simp: createSubscription_def Let_def split: if_splits option.splits prod.splits)
  with ok show ?thesis by simp
next
  case (Inr sub)
  let ?rs = "req_services req"
  let ?found = "findServices (map req_serviceId ?rs) d"
  from Inr have chk: "checkServices ?found ?rs = None"
    by (auto simp: createSubscription_def Let_def split: if_splits option.splits prod.splits)
  from Inr have "\<exists>x. snd (createSubscription now newId u req d)
              = foldl (\<lambda>acc service. snd (incrementSubscriptions service acc))
                  (snd (save now True [] x d)) ?found"
    by (auto simp: createSubscription_def Let_def split_beta split: if_splits option.splits)
  then obtain x where
    res: "snd (createSubscription now newId u req d)
              = foldl (\<lambda>acc service. snd (incrementSubscriptions service acc))
                  (snd (save now True [] x d)) ?found"
    by blast
  define d1 where "d1 = snd (save now True [] x d)"
  have d1: "serviceDocs d1 = serviceDocs d" by (simp add: d1_def serviceDocs_save)
  have dist: "distinct (map service_id ?found)"
    using db by (simp add: findServices_def distinct_map_filter)
  have each: "\<forall>f \<in> set ?found. serviceOk (fst (incrementSubscriptions f d))"
  proof
    fix f assume f: "f \<in> set ?found"
    then have "service_id f \<in> set (map req_serviceId ?rs)" and fd: "f \<in> set (serviceDocs d)"
      by (auto simp: findServices_def)
    then obtain r where r: "r \<in> set ?rs" "req_serviceId r = service_id f" by auto
    from checkServices_None[OF chk r(1)] find_distinct_key[OF dist f] r(2)
    have "checkService f r = None" by simp
    with fd ok show "serviceOk (fst (incrementSubscriptions f d))" by (intro ok_increment) auto
  qed
  from increments_ok[OF each, of d1] ok d1 res show ?thesis by (simp add: d1_def)
qed

lemma createSubscription_ids:
  "map service_id (serviceDocs (snd (createSubscription now newId u req d))) = map service_id (serviceDocs d)"
  by (auto simp: createSubscription_def Let_def split_beta serviceDocs_save increments_ids
        split: if_splits option.splits)

lemma post_subscriptions_storeOk: "storeOk d \<Longrightarrow> storeOk (snd (post_subscriptions now newId req d))"
  unfolding storeOk_def
  using createSubscription_ok createSubscription_ids
  by (auto simp: post_subscriptions_def split: option.splits)

lemma serviceDocs_lifecycle:
  "serviceDocs (snd (cancel now n m r s d)) = serviceDocs d"
  "serviceDocs (snd (pause now n m r s d)) = serviceDocs d"
  "serviceDocs (snd (resume now n m s d)) = serviceDocs d"
  by (simp_all add: cancel_def pause_def resume_def Let_def serviceDocs_save)

lemma put_cancel_storeOk: "storeOk d \<Longrightarrow> storeOk (snd (put_cancel now u i reason d))"
proof -
  assume ok: "storeOk d"
  have "\<exists>items s. snd (put_cancel now u i reason d) = d \<or>
          snd (put_cancel now u i reason d) = decrementAll items (snd (cancel now False [] (case reason of Some r \<Rightarrow> r | None \<Rightarrow> ''User requested cancellation'') s d))"
    by (simp add: put_cancel_def Let_def split_beta split: option.splits) blast
  then obtain items s where
    "snd (put_cancel now u i reason d) = d \<or>
     snd (put_cancel now u i reason d) = decrementAll items (snd (cancel now False [] (case reason of Some r \<Rightarrow> r | None \<Rightarrow> ''User requested cancellation'') s d))"
    by blast
  then show ?thesis
  proof
    assume "snd (put_cancel now u i reason d) = d"
    with ok show ?thesis by simp
  next
    assume e: "snd (put_cancel now u i reason d) = decrementAll items (snd (cancel now False [] (case reason of Some r \<Rightarrow> r | None \<Rightarrow> ''User requested cancellation'') s d))"
    show ?thesis
      unfolding e storeOk_def decrementAll_ids
      using ok decrementAll_ok[of "snd (cancel now False [] (case reason of Some r \<Rightarrow> r | None \<Rightarrow> ''User requested cancellation'') s d)" items]
      by (simp add: storeOk_def serviceDocs_lifecycle)
  qed
qed

lemma admin_put_status_serviceDocs:
  "serviceDocs (snd (admin_put_status now u i st reason d)) = serviceDocs d"
  by (auto simp: admin_put_status_def Let_def split_beta serviceDocs_lifecycle serviceDocs_save
        split: option.splits subscriptionStatus.splits)

lemma step_storeOk: "storeOk d \<Longrightarrow> storeOk (step operation d)"
  by (cases operation)
     (simp_all add: post_subscriptions_storeOk put_cancel_storeOk, simp add: storeOk_def admin_put_status_serviceDocs)

lemma run_storeOk: "storeOk d \<Longrightarrow> storeOk (run ops d)"
  by (induction ops arbitrary: d) (simp_all add: step_storeOk)

text \<open>
  C8, as the code has it. In a store where every service has its own id, where no counter
  is negative and no counter exceeds a cap that is set and is not zero, the same holds
  after any sequence of creation requests, cancel requests and administrator status
  changes, served one after the other. The decrement stops at zero.
\<close>

theorem counter_bounds:
  assumes "distinct (map service_id (serviceDocs d))"
    and "\<forall>s \<in> set (serviceDocs d). counterNonNegative s \<and> withinNonZeroCapacity s"
  shows "(\<forall>s \<in> set (serviceDocs (run ops d)). counterNonNegative s \<and> withinNonZeroCapacity s) \<and>
         (\<forall>s d0. counterNonNegative s \<longrightarrow>
            currentSubscriptions (service_availability (fst (decrementSubscriptions s d0)))
              = max 0 (currentSubscriptions (service_availability s) - 1))"
proof
  have "storeOk d" using assms by (simp add: storeOk_def serviceOk_def)
  then have "storeOk (run ops d)" by (rule run_storeOk)
  then show "\<forall>s \<in> set (serviceDocs (run ops d)). counterNonNegative s \<and> withinNonZeroCapacity s"
    by (simp add: storeOk_def serviceOk_def)
  show "\<forall>s d0. counterNonNegative s \<longrightarrow>
            currentSubscriptions (service_availability (fst (decrementSubscriptions s d0)))
              = max 0 (currentSubscriptions (service_availability s) - 1)"
    by (auto simp: counterNonNegative_def decrementSubscriptions_def Let_def)
qed

text \<open>The claim as stated fails where the cap is set to zero: one accepted order takes the
  counter from 0 to 1, above the cap.\<close>

theorem counter_bounds_counterexample:
  "distinct (map service_id (serviceDocs zeroCapDb)) \<and>
   list_all counterNonNegative (serviceDocs zeroCapDb) \<and>
   list_all withinCapacity (serviceDocs zeroCapDb) \<and>
   \<not> list_all withinCapacity (serviceDocs (run [Create exampleNow ''sub2'' zeroCapRequest] zeroCapDb))"
  by (simp add: route_defs example_defs counterNonNegative_def withinCapacity_def)

theorem counter_bounds_witness:
  "distinct (map service_id (serviceDocs exampleDb)) \<and>
   list_all (\<lambda>s. counterNonNegative s \<and> withinNonZeroCapacity s) (serviceDocs exampleDb) \<and>
   list_all (\<lambda>s. counterNonNegative s \<and> withinNonZeroCapacity s)
     (serviceDocs (run [Create exampleNow ''sub2'' exampleRequest,
                        Cancel exampleNow (Some exampleUser) ''sub2'' None,
                        Cancel exampleNow (Some exampleUser) ''sub1'' None] exampleDb))"
proof -
  have d: "distinct (map service_id (serviceDocs exampleDb))" by (simp add: example_defs)
  have i: "\<forall>s \<in> set (serviceDocs exampleDb). counterNonNegative s \<and> withinNonZeroCapacity s"
    by (simp add: example_defs counterNonNegative_def withinNonZeroCapacity_def)
  have r: "\<forall>s \<in> set (serviceDocs (run [Create exampleNow ''sub2'' exampleRequest,
                        Cancel exampleNow (Some exampleUser) ''sub2'' None,
                        Cancel exampleNow (Some exampleUser) ''sub1'' None] exampleDb)).
             counterNonNegative s \<and> withinNonZeroCapacity s"
    using counter_bounds[OF d i] by blast
  show ?thesis unfolding list_all_iff using d i r by blast
qed

subsection \<open>The next billing date\<close>

lemma month_div: "(12 * y + a) div 12 = y + a div (12::int)"
  by simp

lemma month_mod: "(12 * y + a) mod 12 = a mod (12::int)"
  by simp

lemma month_carry:
  fixes k :: int
  assumes "k mod 12 = 11"
  shows "(k + 1) div 12 = k div 12 + 1 \<and> (k + 1) mod 12 = 0"
proof -
  have "k = 12 * (k div 12) + 11" using assms mult_div_mod_eq[of 12 k] by simp
  then have e: "k + 1 = 12 * (k div 12 + 1) + 0" by simp
  have "(k + 1) div 12 = k div 12 + 1"
    unfolding e month_div by simp
  moreover have "(k + 1) mod 12 = 0"
    unfolding e month_mod by simp
  ultimately show ?thesis by simp
qed

lemma month_next:
  fixes k :: int
  assumes "k mod 12 \<noteq> 11"
  shows "(k + 1) div 12 = k div 12 \<and> (k + 1) mod 12 = k mod 12 + 1"
proof -
  have r: "0 \<le> k mod 12" "k mod 12 < 12" by simp_all
  with assms have s: "k mod 12 + 1 < 12" "0 \<le> k mod 12 + 1" by linarith+
  have e: "k + 1 = 12 * (k div 12) + (k mod 12 + 1)" using mult_div_mod_eq[of 12 k] by simp
  have d0: "(k mod 12 + 1) div 12 = 0" using s by (rule_tac div_pos_pos_trivial)
  have m0: "(k mod 12 + 1) mod 12 = k mod 12 + 1" using s by (rule_tac mod_pos_pos_trivial)
  have "(k + 1) div 12 = k div 12 + (k mod 12 + 1) div 12"
    by (subst e) (rule month_div)
  moreover have "(k + 1) mod 12 = (k mod 12 + 1) mod 12"
    by (subst e) (rule month_mod)
  ultimately show ?thesis using d0 m0 by simp
qed

lemma daysInMonth_bounds: "28 \<le> daysInMonth y m \<and> daysInMonth y m \<le> 31"
  by (simp add: daysInMonth_def)

lemma makeDate_plus:
  "makeDate (fullYear d) (int (monthIndex d) + int n) (dayOfMonth d) (timeInDay d)
   = plusCalendarMonths n d"
proof -
  define a where "a = int (monthIndex d) + int n"
  define k where "k = 12 * fullYear d + a"
  have k: "12 * fullYear d + int (monthIndex d) + int n = k" by (simp add: k_def a_def)
  have kd: "fullYear d + a div 12 = k div 12" unfolding k_def month_div ..
  have km: "a mod 12 = k mod 12" unfolding k_def month_mod ..
  have nn: "0 \<le> k mod 12" by simp
  have lhs: "makeDate (fullYear d) a (dayOfMonth d) (timeInDay d) =
     (if dayOfMonth d \<le> daysInMonth (k div 12) (nat (k mod 12))
      then \<lparr>fullYear = k div 12, monthIndex = nat (k mod 12), dayOfMonth = dayOfMonth d, timeInDay = timeInDay d\<rparr>
      else if nat (k mod 12) = 11
        then \<lparr>fullYear = k div 12 + 1, monthIndex = 0,
              dayOfMonth = dayOfMonth d - daysInMonth (k div 12) (nat (k mod 12)), timeInDay = timeInDay d\<rparr>
        else \<lparr>fullYear = k div 12, monthIndex = nat (k mod 12) + 1,
              dayOfMonth = dayOfMonth d - daysInMonth (k div 12) (nat (k mod 12)), timeInDay = timeInDay d\<rparr>)"
    unfolding makeDate_def Let_def kd km ..
  have rhs: "plusCalendarMonths n d =
     (if dayOfMonth d \<le> daysInMonth (k div 12) (nat (k mod 12))
      then \<lparr>fullYear = k div 12, monthIndex = nat (k mod 12), dayOfMonth = dayOfMonth d, timeInDay = timeInDay d\<rparr>
      else \<lparr>fullYear = (k + 1) div 12, monthIndex = nat ((k + 1) mod 12),
              dayOfMonth = dayOfMonth d - daysInMonth (k div 12) (nat (k mod 12)), timeInDay = timeInDay d\<rparr>)"
    unfolding plusCalendarMonths_def Let_def k ..
  show ?thesis
  proof (cases "k mod 12 = 11")
    case True
    from month_carry[OF True] True show ?thesis
      unfolding a_def[symmetric] lhs rhs by simp
  next
    case False
    then have "nat (k mod 12) \<noteq> 11" using nn by linarith
    moreover have "nat (k mod 12 + 1) = nat (k mod 12) + 1" using nn by linarith
    ultimately show ?thesis
      using month_next[OF False] unfolding a_def[symmetric] lhs rhs by simp
  qed
qed

lemma setMonth_plus: "setMonth d (getMonth d + int n) = plusCalendarMonths n d"
  unfolding setMonth_def getMonth_def by (rule makeDate_plus)

lemma setFullYear_plus:
  assumes "monthIndex d < 12"
  shows "setFullYear d (getFullYear d + int n) = plusCalendarYears n d"
proof -
  have z: "int (monthIndex d) div 12 = 0" and m: "int (monthIndex d) mod 12 = int (monthIndex d)"
    using assms by simp_all
  have "makeDate (fullYear d + int n) (int (monthIndex d)) (dayOfMonth d) (timeInDay d)
        = makeDate (fullYear d) (int (monthIndex d) + int (12 * n)) (dayOfMonth d) (timeInDay d)"
    unfolding makeDate_def Let_def using z m by simp
  then show ?thesis
    unfolding setFullYear_def getFullYear_def plusCalendarYears_def makeDate_plus .
qed

lemma validDate_plusCalendarMonths:
  assumes "validDate d"
  shows "validDate (plusCalendarMonths n d)"
proof -
  define k where "k = 12 * fullYear d + int (monthIndex d) + int n"
  have m: "nat (k mod 12) < 12" "nat ((k + 1) mod 12) < 12" by simp_all
  have day: "1 \<le> dayOfMonth d" "dayOfMonth d \<le> 31"
    using assms daysInMonth_bounds[of "fullYear d" "monthIndex d"] by (auto simp: validDate_def)
  note b1 = daysInMonth_bounds[of "k div 12" "nat (k mod 12)"]
  note b2 = daysInMonth_bounds[of "(k + 1) div 12" "nat ((k + 1) mod 12)"]
  show ?thesis
  proof (cases "dayOfMonth d \<le> daysInMonth (k div 12) (nat (k mod 12))")
    case True
    then show ?thesis using m day
      by (simp add: validDate_def plusCalendarMonths_def Let_def k_def[symmetric])
  next
    case False
    then have "1 \<le> dayOfMonth d - daysInMonth (k div 12) (nat (k mod 12))"
      and "dayOfMonth d - daysInMonth (k div 12) (nat (k mod 12))
             \<le> daysInMonth ((k + 1) div 12) (nat ((k + 1) mod 12))"
      using day b1 b2 by linarith+
    with False show ?thesis using m
      by (simp add: validDate_def plusCalendarMonths_def Let_def k_def[symmetric])
  qed
qed

text \<open>
  C2. On every save of a subscription that is new or whose start date or billing cycle
  was written, the hook sets \<^verbatim>\<open>nextBillingDate\<close> from the start date (the current time
  when there is none): the start date plus 1 calendar month for monthly, plus 3 calendar
  months for quarterly, plus 1 calendar year for yearly, and \<^verbatim>\<open>null\<close> for one-time.
  It is \<^verbatim>\<open>null\<close> exactly when the billing cycle is one-time; otherwise it is a valid
  date. Nothing else of the document changes.
\<close>

theorem next_billing_date:
  assumes trigger: "isNew \<or> isModified modified ''dates.startDate'' \<or> isModified modified ''billingCycle''"
    and start: "start = (case startDate (subscription_dates this) of Some d \<Rightarrow> d | None \<Rightarrow> now)"
    and valid: "validDate start"
  shows "nextBillingDate (subscription_dates (pre_save now isNew modified this)) =
           (case billingCycle this of
              Monthly \<Rightarrow> Some (plusCalendarMonths 1 start)
            | Quarterly \<Rightarrow> Some (plusCalendarMonths 3 start)
            | Yearly \<Rightarrow> Some (plusCalendarYears 1 start)
            | OneTime \<Rightarrow> None) \<and>
         (nextBillingDate (subscription_dates (pre_save now isNew modified this)) = None
            \<longleftrightarrow> billingCycle this = OneTime) \<and>
         (\<forall>r. nextBillingDate (subscription_dates (pre_save now isNew modified this)) = Some r \<longrightarrow> validDate r) \<and>
         pre_save now isNew modified this =
           this\<lparr>subscription_dates := (subscription_dates this)
                   \<lparr>nextBillingDate := nextBillingDate (subscription_dates (pre_save now isNew modified this))\<rparr>\<rparr>"
proof -
  have m: "monthIndex start < 12" using valid by (simp add: validDate_def)
  have 1: "setMonth start (getMonth start + 1) = plusCalendarMonths 1 start"
    using setMonth_plus[of start 1] by simp
  have 3: "setMonth start (getMonth start + 3) = plusCalendarMonths 3 start"
    using setMonth_plus[of start 3] by simp
  have 12: "setFullYear start (getFullYear start + 1) = plusCalendarYears 1 start"
    using setFullYear_plus[OF m, of 1] by simp
  have v: "validDate (plusCalendarMonths 1 start)" "validDate (plusCalendarMonths 3 start)"
          "validDate (plusCalendarYears 1 start)"
    using validDate_plusCalendarMonths[OF valid] by (simp_all add: plusCalendarYears_def)
  show ?thesis
    using trigger v
    by (cases "billingCycle this") (simp_all add: pre_save_def Let_def start[symmetric] 1 3 12)
qed


theorem next_billing_date_witness:
  "validDate exampleStart \<and>
   nextBillingDate (subscription_dates (pre_save exampleNow True [] (exampleSubscription\<lparr>billingCycle := Yearly\<rparr>)))
     = Some \<lparr>fullYear = 2025, monthIndex = 0, dayOfMonth = 15, timeInDay = 0\<rparr> \<and>
   nextBillingDate (subscription_dates (pre_save exampleNow True [] (exampleSubscription\<lparr>billingCycle := Monthly\<rparr>)))
     = Some \<lparr>fullYear = 2024, monthIndex = 1, dayOfMonth = 15, timeInDay = 0\<rparr> \<and>
   nextBillingDate (subscription_dates (pre_save exampleNow True [] (exampleSubscription\<lparr>billingCycle := OneTime\<rparr>)))
     = None \<and>
   nextBillingDate (subscription_dates (pre_save exampleNow False [''dates.startDate'']
       (exampleSubscription\<lparr>subscription_dates := (subscription_dates exampleSubscription)
          \<lparr>startDate := Some \<lparr>fullYear = 2024, monthIndex = 0, dayOfMonth = 31, timeInDay = 0\<rparr>\<rparr>\<rparr>)))
     = Some \<lparr>fullYear = 2024, monthIndex = 2, dayOfMonth = 2, timeInDay = 0\<rparr>"
proof -
  let ?jan31 = "\<lparr>fullYear = 2024, monthIndex = 0, dayOfMonth = 31, timeInDay = 0\<rparr>"
  let ?moved = "exampleSubscription\<lparr>subscription_dates := (subscription_dates exampleSubscription)
          \<lparr>startDate := Some ?jan31\<rparr>\<rparr>"
  have vj: "validDate ?jan31" by (simp add: validDate_def daysInMonth_def)
  have mj: "plusCalendarMonths 1 ?jan31 = \<lparr>fullYear = 2024, monthIndex = 2, dayOfMonth = 2, timeInDay = 0\<rparr>"
    by (simp add: plusCalendarMonths_def Let_def daysInMonth_def leapYear_def)
  have tj: "isModified [''dates.startDate''] ''dates.startDate''" by (simp add: isModified_def)
  from next_billing_date[where isNew = False and modified = "[''dates.startDate'']" and now = exampleNow and
         start = ?jan31 and this = ?moved] vj mj tj
  have j: "nextBillingDate (subscription_dates (pre_save exampleNow False [''dates.startDate''] ?moved))
     = Some \<lparr>fullYear = 2024, monthIndex = 2, dayOfMonth = 2, timeInDay = 0\<rparr>"
    by (simp add: exampleSubscription_def)
  have v: "validDate exampleStart"
    by (simp add: validDate_def exampleStart_def daysInMonth_def)
  have y: "plusCalendarYears 1 exampleStart = \<lparr>fullYear = 2025, monthIndex = 0, dayOfMonth = 15, timeInDay = 0\<rparr>"
    by (simp add: plusCalendarYears_def plusCalendarMonths_def Let_def daysInMonth_def exampleStart_def)
  have m: "plusCalendarMonths 1 exampleStart = \<lparr>fullYear = 2024, monthIndex = 1, dayOfMonth = 15, timeInDay = 0\<rparr>"
    by (simp add: plusCalendarMonths_def Let_def daysInMonth_def leapYear_def exampleStart_def)
  from next_billing_date[where isNew = True and modified = "[]" and now = exampleNow and
         start = exampleStart and this = "exampleSubscription\<lparr>billingCycle := Yearly\<rparr>"] v y
  have a: "nextBillingDate (subscription_dates (pre_save exampleNow True [] (exampleSubscription\<lparr>billingCycle := Yearly\<rparr>)))
     = Some \<lparr>fullYear = 2025, monthIndex = 0, dayOfMonth = 15, timeInDay = 0\<rparr>"
    by (simp add: exampleSubscription_def)
  from next_billing_date[where isNew = True and modified = "[]" and now = exampleNow and
         start = exampleStart and this = "exampleSubscription\<lparr>billingCycle := Monthly\<rparr>"] v m
  have b: "nextBillingDate (subscription_dates (pre_save exampleNow True [] (exampleSubscription\<lparr>billingCycle := Monthly\<rparr>)))
     = Some \<lparr>fullYear = 2024, monthIndex = 1, dayOfMonth = 15, timeInDay = 0\<rparr>"
    by (simp add: exampleSubscription_def)
  from next_billing_date[where isNew = True and modified = "[]" and now = exampleNow and
         start = exampleStart and this = "exampleSubscription\<lparr>billingCycle := OneTime\<rparr>"] v
  have c: "nextBillingDate (subscription_dates (pre_save exampleNow True [] (exampleSubscription\<lparr>billingCycle := OneTime\<rparr>)))
     = None"
    by (simp add: exampleSubscription_def)
  from v a b c j show ?thesis by blast
qed

end
